theory Spec2Isabelle
  imports Complex_Main "HOL-Library.AList"
begin

section \<open>Events and the event bus (app/services/agents/event_bus.py)\<close>

text \<open>
  The closed enumeration \<open>EventType\<close> of the source, one constructor per member.
  Every member's string value is non-empty, so a member is truthy in Python
  (a \<open>str\<close>-mixed enum follows the rules of \<open>str\<close>).
\<close>

datatype EventType =
    REQUEST_CREATED | REQUEST_UPDATED | REQUEST_COMPLETED | REQUEST_CANCELLED
  | DOCUMENT_RETRIEVAL_STARTED | DOCUMENT_RETRIEVAL_PROGRESS | DOCUMENTS_RETRIEVED
  | DOCUMENT_RETRIEVAL_FAILED
  | EMAIL_RETRIEVAL_STARTED | EMAIL_RETRIEVAL_PROGRESS | EMAILS_RETRIEVED
  | EMAIL_RETRIEVAL_FAILED
  | CLASSIFICATION_STARTED | CLASSIFICATION_PROGRESS | CLASSIFICATION_COMPLETE
  | CLASSIFICATION_FAILED
  | DEADLINE_APPROACHING | DEADLINE_CRITICAL | DEADLINE_OVERDUE
  | WORKFLOW_TASK_STARTED | WORKFLOW_TASK_COMPLETED | WORKFLOW_TASK_FAILED
  | WORKFLOW_COMPLETED
  | AGENT_STARTED | AGENT_STOPPED | AGENT_ERROR | AGENT_HEARTBEAT
  | ERROR | WARNING | NOTIFICATION | SYSTEM_SHUTDOWN

text \<open>
  A payload is a \<open>Dict[str, Any]\<close>: an association list from keys to the values the
  agents and the orchestrator put there. \<open>PTime\<close> stands for a value read from the
  clock (an ISO timestamp, an uptime), which the model does not compute.
\<close>

datatype pval = PStr string | PInt int | PTime

type_synonym payload = "(string \<times> pval) list"

text \<open>
  The dataclass \<open>Event\<close>. \<open>event_id\<close> (a fresh uuid4) and \<open>timestamp\<close>
  (\<open>datetime.utcnow()\<close>) are produced by default factories; the model takes both as
  arguments of the publishing call.
\<close>

record Event =
  event_type :: EventType
  data :: payload
  source :: string
  event_id :: string
  timestamp :: nat
  correlation_id :: "string option"
  metadata :: payload

text \<open>
  The dataclass \<open>Subscription\<close>. The callback is code of the subscriber; the model
  keeps whether it raises on an event (\<open>callback_raises\<close>) and records every
  invocation in the bus's delivery log.
\<close>

record Subscription =
  subscriber_id :: string
  event_types :: "EventType list"
  callback_raises :: "Event \<Rightarrow> bool"
  is_async :: bool
  filter_func :: "(Event \<Rightarrow> bool) option"

text \<open>
  The state of an \<open>EventBus\<close>: the subscription dict in insertion order, the
  \<open>asyncio.Queue\<close> as the list of queued events with its \<open>maxsize\<close>, the
  history list with its cap, and the log of callback invocations
  (subscriber id, event) in the order made.
\<close>

record EventBus =
  subscriptions :: "(string \<times> Subscription) list"
  event_queue :: "Event list"
  max_queue_size :: int
  running :: bool
  event_history :: "Event list"
  max_history_size :: int
  delivered :: "(string \<times> Event) list"

definition new_event_bus :: "int \<Rightarrow> EventBus" where
  "new_event_bus maxsize =
     \<lparr>subscriptions = [], event_queue = [], max_queue_size = maxsize, running = False,
      event_history = [], max_history_size = 1000, delivered = []\<rparr>"

definition default_max_queue_size :: int where
  "default_max_queue_size = 10000"

text \<open>
  \<open>asyncio.Queue\<close> of the Python standard library: \<open>full()\<close> is false for
  \<open>maxsize <= 0\<close>, else \<open>qsize() >= maxsize\<close>. \<open>put_nowait\<close> raises
  \<open>QueueFull\<close> on a full queue; the coroutine \<open>put\<close> waits for a free slot
  instead and never raises \<open>QueueFull\<close>.
\<close>

definition queue_full :: "EventBus \<Rightarrow> bool" where
  "queue_full bus =
     (if max_queue_size bus \<le> 0 then False
      else max_queue_size bus \<le> int (length (event_queue bus)))"

datatype put_result = PutDone "Event list" | PutWaits | PutQueueFull

definition queue_put :: "EventBus \<Rightarrow> Event \<Rightarrow> put_result" where
  "queue_put bus item =
     (if queue_full bus then PutWaits else PutDone (event_queue bus @ [item]))"

definition queue_put_nowait :: "EventBus \<Rightarrow> Event \<Rightarrow> put_result" where
  "queue_put_nowait bus item =
     (if queue_full bus then PutQueueFull else PutDone (event_queue bus @ [item]))"

text \<open>
  The result of a call: it returns a value, it raises, or (a coroutine) it is
  suspended at an \<open>await\<close> that has not completed.
\<close>

datatype bus_error = RuntimeError string

datatype 'a call_result = Returned 'a | Raised bus_error | Suspended

definition make_event ::
  "EventType \<Rightarrow> payload \<Rightarrow> string \<Rightarrow> string option \<Rightarrow> payload option \<Rightarrow> string \<Rightarrow> nat \<Rightarrow> Event"
where
  "make_event et d src cid md fresh_id now =
     \<lparr>event_type = et, data = d, source = src, event_id = fresh_id, timestamp = now,
      correlation_id = cid, metadata = (case md of None \<Rightarrow> [] | Some m \<Rightarrow> m)\<rparr>"

text \<open>
  \<open>EventBus.publish\<close>: the event is built, then \<open>await self._event_queue.put(event)\<close>
  inside \<open>try ... except asyncio.QueueFull\<close>.
\<close>

definition publish ::
  "EventBus \<Rightarrow> EventType \<Rightarrow> payload \<Rightarrow> string \<Rightarrow> string option \<Rightarrow> payload option \<Rightarrow> string \<Rightarrow> nat
     \<Rightarrow> (Event \<times> EventBus) call_result"
where
  "publish bus et d src cid md fresh_id now =
     (let event = make_event et d src cid md fresh_id now in
      case queue_put bus event of
        PutDone q \<Rightarrow> Returned (event, bus\<lparr>event_queue := q\<rparr>)
      | PutWaits \<Rightarrow> Suspended
      | PutQueueFull \<Rightarrow> Raised (RuntimeError ''Event queue is full''))"

text \<open>
  \<open>EventBus.publish_sync\<close>: the same with \<open>self._event_queue.put_nowait(event)\<close>.
\<close>

definition publish_sync ::
  "EventBus \<Rightarrow> EventType \<Rightarrow> payload \<Rightarrow> string \<Rightarrow> string option \<Rightarrow> payload option \<Rightarrow> string \<Rightarrow> nat
     \<Rightarrow> (Event \<times> EventBus) call_result"
where
  "publish_sync bus et d src cid md fresh_id now =
     (let event = make_event et d src cid md fresh_id now in
      case queue_put_nowait bus event of
        PutDone q \<Rightarrow> Returned (event, bus\<lparr>event_queue := q\<rparr>)
      | PutWaits \<Rightarrow> Suspended
      | PutQueueFull \<Rightarrow> Raised (RuntimeError ''Event queue is full''))"

text \<open>
  Python's slice \<open>xs[start:]\<close>: a negative start counts from the end and is clamped
  at the beginning; \<open>xs[-0:]\<close> is \<open>xs[0:]\<close>, the whole list.
\<close>

definition py_slice_from :: "int \<Rightarrow> 'a list \<Rightarrow> 'a list" where
  "py_slice_from start xs =
     (let n = int (length xs);
          s = (if start < 0 then max 0 (n + start) else min start n)
      in drop (nat s) xs)"

text \<open>\<open>EventBus.subscribe\<close> and \<open>EventBus.unsubscribe\<close>.\<close>

definition subscribe ::
  "EventBus \<Rightarrow> string \<Rightarrow> EventType list \<Rightarrow> (Event \<Rightarrow> bool) \<Rightarrow> bool \<Rightarrow> (Event \<Rightarrow> bool) option
     \<Rightarrow> string \<times> EventBus"
where
  "subscribe bus sid ets cb async ff =
     (let subscription =
        \<lparr>subscriber_id = sid, event_types = remdups ets, callback_raises = cb,
         is_async = async, filter_func = ff\<rparr>
      in (sid, bus\<lparr>subscriptions := AList.update sid subscription (subscriptions bus)\<rparr>))"

definition unsubscribe :: "EventBus \<Rightarrow> string \<Rightarrow> bool \<times> EventBus" where
  "unsubscribe bus sid =
     (if sid \<in> fst ` set (subscriptions bus)
      then (True, bus\<lparr>subscriptions := AList.delete sid (subscriptions bus)\<rparr>)
      else (False, bus))"

text \<open>
  \<open>EventBus._process_event\<close>: the event is appended to the history, which is cut to
  its last \<open>_max_history_size\<close> entries when it grows past the cap; then the callback
  of every subscription that lists the event's type and whose filter accepts the event
  is invoked. An exception of a callback is caught and logged, so the invocation is
  recorded either way and the loop goes on.
\<close>

definition append_history :: "EventBus \<Rightarrow> Event \<Rightarrow> Event list" where
  "append_history bus event =
     (let h = event_history bus @ [event] in
      if max_history_size bus < int (length h)
      then py_slice_from (- max_history_size bus) h else h)"

definition subscription_matches :: "Subscription \<Rightarrow> Event \<Rightarrow> bool" where
  "subscription_matches s event =
     (if event_type event \<notin> set (event_types s) then False
      else (case filter_func s of
              Some f \<Rightarrow> f event
            | None \<Rightarrow> True))"

definition process_event :: "EventBus \<Rightarrow> Event \<Rightarrow> EventBus" where
  "process_event bus event =
     bus\<lparr>event_history := append_history bus event,
         delivered := delivered bus @
           map (\<lambda>(sid, s). (sid, event))
             (filter (\<lambda>(sid, s). subscription_matches s event) (subscriptions bus))\<rparr>"

text \<open>
  \<open>EventBus.get_event_history\<close>. A filter is applied when its argument is truthy:
  an \<open>EventType\<close> always is, a string is when it is not empty. The result is
  \<open>events[-limit:]\<close>.
\<close>

definition get_event_history ::
  "EventBus \<Rightarrow> EventType option \<Rightarrow> string option \<Rightarrow> string option \<Rightarrow> int \<Rightarrow> Event list"
where
  "get_event_history bus et src cid limit =
     (let events = event_history bus;
          events = (case et of
                      Some t \<Rightarrow> filter (\<lambda>e. event_type e = t) events
                    | None \<Rightarrow> events);
          events = (case src of
                      Some s \<Rightarrow> if s \<noteq> [] then filter (\<lambda>e. source e = s) events else events
                    | None \<Rightarrow> events);
          events = (case cid of
                      Some c \<Rightarrow> if c \<noteq> [] then filter (\<lambda>e. correlation_id e = Some c) events
                                else events
                    | None \<Rightarrow> events)
      in py_slice_from (- limit) events)"


section \<open>The base agent (app/services/agents/base_agent.py)\<close>

datatype AgentState =
  Idle | Starting | Running | Paused | Stopping | Stopped | Error | Recovering

fun state_value :: "AgentState \<Rightarrow> string" where
  "state_value Idle = ''idle''"
| "state_value Starting = ''starting''"
| "state_value Running = ''running''"
| "state_value Paused = ''paused''"
| "state_value Stopping = ''stopping''"
| "state_value Stopped = ''stopped''"
| "state_value Error = ''error''"
| "state_value Recovering = ''recovering''"

text \<open>
  The dataclass \<open>RetryConfig\<close>. \<open>max_retries\<close> is a Python \<open>int\<close>; the three
  \<open>float\<close> fields are modelled as real numbers, so the arithmetic of the backoff is
  exact.
\<close>

record RetryConfig =
  max_retries :: int
  initial_delay :: real
  max_delay :: real
  exponential_base :: real
  jitter :: bool

definition default_retry_config :: RetryConfig where
  "default_retry_config =
     \<lparr>max_retries = 3, initial_delay = 1, max_delay = 300, exponential_base = 2,
      jitter = True\<rparr>"

text \<open>
  The dataclass \<open>AgentMetrics\<close>, without its three \<open>datetime\<close> fields
  (\<open>start_time\<close>, \<open>last_heartbeat\<close>, \<open>last_run\<close>), which are only written
  from the clock and read to report an uptime. An error record keeps its type and its
  message.
\<close>

record AgentMetrics =
  total_runs :: int
  successful_runs :: int
  failed_runs :: int
  total_items_processed :: int
  current_retry_count :: int
  errors :: "(string \<times> string) list"

definition new_metrics :: AgentMetrics where
  "new_metrics =
     \<lparr>total_runs = 0, successful_runs = 0, failed_runs = 0, total_items_processed = 0,
      current_retry_count = 0, errors = []\<rparr>"

text \<open>
  The state of a \<open>BaseAgent\<close>.
  \<^item> \<open>run_task\<close> and \<open>heartbeat_task\<close> say whether a run loop, a heartbeat loop,
    started by \<open>start()\<close> is alive; \<open>shutdown_event\<close> and \<open>pause_event\<close> are
    the two \<open>asyncio.Event\<close> flags.
  \<^item> \<open>on_start_raises\<close> and \<open>on_stop_raises\<close> are the behaviour of the hooks
    \<open>_on_start\<close> and \<open>_on_stop\<close> a subclass overrides: \<open>None\<close> when the hook
    returns, the message of the exception when it raises.
  \<^item> What the agent does to the outside is recorded in the order done:
    \<open>transitions\<close> holds the pair (old, new) of every \<open>_set_state\<close> (the line
    "State transition: old -> new" of its log), \<open>emitted\<close> every call of
    \<open>_emit_event\<close> (event type and data), \<open>slept\<close> every delay given to
    \<open>asyncio.sleep\<close> by the retry procedure.
  \<^item> \<open>calls\<close> counts the invocations of the unit of work so far and \<open>draws\<close>
    the calls of \<open>random.random()\<close>: the work and the random generator are taken as
    functions of these counters.
\<close>

record agent =
  agent_name :: string
  retry_config :: RetryConfig
  state :: AgentState
  metrics :: AgentMetrics
  run_task :: bool
  heartbeat_task :: bool
  shutdown_event :: bool
  pause_event :: bool
  on_start_raises :: "string option"
  on_stop_raises :: "string option"
  transitions :: "(AgentState \<times> AgentState) list"
  emitted :: "(EventType \<times> payload) list"
  slept :: "real list"
  calls :: nat
  draws :: nat

definition new_agent :: "string \<Rightarrow> RetryConfig \<Rightarrow> string option \<Rightarrow> string option \<Rightarrow> agent" where
  "new_agent name rc hook_start hook_stop =
     \<lparr>agent_name = name, retry_config = rc, state = Idle, metrics = new_metrics,
      run_task = False, heartbeat_task = False, shutdown_event = False, pause_event = True,
      on_start_raises = hook_start, on_stop_raises = hook_stop,
      transitions = [], emitted = [], slept = [], calls = 0, draws = 0\<rparr>"

text \<open>
  \<open>_emit_event\<close> hands the event to \<open>event_bus.publish\<close> and catches every
  exception of it, so for the agent it always returns; the queueing itself is the
  bus's, modelled above.
\<close>

definition emit_event :: "agent \<Rightarrow> EventType \<Rightarrow> payload \<Rightarrow> agent" where
  "emit_event a et d = a\<lparr>emitted := emitted a @ [(et, d)]\<rparr>"

text \<open>\<open>BaseAgent._set_state\<close>: an \<open>AGENT_ERROR\<close> event goes out on entering \<open>ERROR\<close>.\<close>

definition set_state :: "agent \<Rightarrow> AgentState \<Rightarrow> agent" where
  "set_state a new_state =
     (let old_state = state a;
          a1 = a\<lparr>state := new_state,
                 transitions := transitions a @ [(old_state, new_state)]\<rparr>
      in if new_state = Error
         then emit_event a1 AGENT_ERROR
                [(''previous_state'', PStr (state_value old_state)),
                 (''error_count'', PInt (int (length (errors (metrics a1)))))]
         else a1)"

text \<open>\<open>BaseAgent._add_error\<close>: the list keeps its last 100 records.\<close>

definition add_error :: "agent \<Rightarrow> string \<Rightarrow> string \<Rightarrow> agent" where
  "add_error a error_type message =
     (let es = errors (metrics a) @ [(error_type, message)];
          es1 = (if 100 < length es then py_slice_from (- 100) es else es)
      in a\<lparr>metrics := (metrics a)\<lparr>errors := es1\<rparr>\<rparr>)"

text \<open>
  One invocation of the unit of work (\<open>await func(*args, **kwargs)\<close>): it returns a
  value, read as a truth value by the run loop, it raises an exception with a message,
  or it is cancelled (\<open>asyncio.CancelledError\<close>, which is not an \<open>Exception\<close>).
\<close>

datatype work_result = Ok bool | Fail string | Cancelled

datatype exn = Exception string | TypeError string

datatype 'a result = Return 'a | Raise exn | CancelledError

fun exn_message :: "exn \<Rightarrow> string" where
  "exn_message (Exception m) = m"
| "exn_message (TypeError m) = m"

text \<open>
  The loop \<open>for attempt in range(self.retry_config.max_retries + 1)\<close> of
  \<open>_execute_with_retry\<close>, as a recursion over the attempts still to run, with the
  loop's variables \<open>delay\<close> and \<open>last_exception\<close>. After the loop comes
  \<open>raise last_exception\<close>; raising \<open>None\<close> is a \<open>TypeError\<close> in Python.
\<close>

fun retry_loop ::
  "(nat \<Rightarrow> work_result) \<Rightarrow> (nat \<Rightarrow> real) \<Rightarrow> int list \<Rightarrow> real \<Rightarrow> exn option \<Rightarrow> agent
     \<Rightarrow> bool result \<times> agent"
where
  "retry_loop work rnd [] delay last_exception a =
     (case last_exception of
        None \<Rightarrow> (Raise (TypeError ''exceptions must derive from BaseException''), a)
      | Some e \<Rightarrow> (Raise e, a))"
| "retry_loop work rnd (attempt # rest) delay last_exception a =
     (let a1 = (if 0 < attempt then set_state a Recovering else a);
          r = work (calls a1);
          a2 = a1\<lparr>calls := calls a1 + 1\<rparr>
      in case r of
           Ok v \<Rightarrow> (Return v, if 0 < attempt then set_state a2 Running else a2)
         | Cancelled \<Rightarrow> (CancelledError, a2)
         | Fail msg \<Rightarrow>
             (let a3 = a2\<lparr>metrics := (metrics a2)\<lparr>current_retry_count := attempt + 1\<rparr>\<rparr>
              in if attempt < max_retries (retry_config a3)
                 then (let delay1 = (if jitter (retry_config a3)
                                     then delay * (0.5 + rnd (draws a3)) else delay);
                           a4 = (if jitter (retry_config a3)
                                 then a3\<lparr>draws := draws a3 + 1\<rparr> else a3);
                           wait_time = min delay1 (max_delay (retry_config a4));
                           a5 = a4\<lparr>slept := slept a4 @ [wait_time]\<rparr>
                       in retry_loop work rnd rest
                            (delay1 * exponential_base (retry_config a5))
                            (Some (Exception msg)) a5)
                 else retry_loop work rnd rest delay (Some (Exception msg))
                        (set_state a3 Error)))"

text \<open>\<open>BaseAgent._execute_with_retry\<close>; \<open>range(n + 1)\<close> is the list \<open>[0..n]\<close>.\<close>

definition execute_with_retry ::
  "(nat \<Rightarrow> work_result) \<Rightarrow> (nat \<Rightarrow> real) \<Rightarrow> agent \<Rightarrow> bool result \<times> agent"
where
  "execute_with_retry work rnd a =
     retry_loop work rnd [0..max_retries (retry_config a)]
       (initial_delay (retry_config a)) None a"

text \<open>
  One pass of the \<open>while\<close> loop of \<open>_run_loop\<close>. The pass is \<open>Finished\<close> when
  there is no loop or the shutdown flag ends it, \<open>Blocked\<close> while the pause flag is
  cleared, \<open>Interrupted\<close> when the work is cancelled (the loop breaks), and
  \<open>Completed\<close> otherwise, after which the loop sleeps for the run interval.
\<close>

datatype pass = Completed | Blocked | Interrupted | Finished

definition run_iteration ::
  "(nat \<Rightarrow> work_result) \<Rightarrow> (nat \<Rightarrow> real) \<Rightarrow> agent \<Rightarrow> pass \<times> agent"
where
  "run_iteration work rnd a =
     (if \<not> run_task a then (Finished, a)
      else if shutdown_event a then (Finished, a\<lparr>run_task := False\<rparr>)
      else if \<not> pause_event a then (Blocked, a)
      else
        (let a1 = a\<lparr>metrics := (metrics a)\<lparr>total_runs := total_runs (metrics a) + 1\<rparr>\<rparr>
         in case execute_with_retry work rnd a1 of
              (Return res, a2) \<Rightarrow>
                (Completed,
                 if res
                 then a2\<lparr>metrics := (metrics a2)
                        \<lparr>successful_runs := successful_runs (metrics a2) + 1,
                         current_retry_count := 0\<rparr>\<rparr>
                 else a2\<lparr>metrics := (metrics a2)
                        \<lparr>failed_runs := failed_runs (metrics a2) + 1\<rparr>\<rparr>)
            | (Raise e, a2) \<Rightarrow>
                (Completed,
                 add_error
                   (a2\<lparr>metrics := (metrics a2)
                        \<lparr>failed_runs := failed_runs (metrics a2) + 1\<rparr>\<rparr>)
                   ''run_error'' (exn_message e))
            | (CancelledError, a2) \<Rightarrow> (Interrupted, a2\<lparr>run_task := False\<rparr>)))"

text \<open>
  \<open>BaseAgent.start\<close>. An exception can come from the hook \<open>_on_start\<close>, before
  the two tasks are created.
\<close>

definition agent_start :: "agent \<Rightarrow> bool \<times> agent" where
  "agent_start a =
     (if state a \<notin> set [Idle, Stopped, Error] then (False, a)
      else
        (let a1 = set_state a Starting;
             a2 = a1\<lparr>shutdown_event := False, pause_event := True\<rparr>
         in case on_start_raises a2 of
              Some msg \<Rightarrow> (False, add_error (set_state a2 Error) ''start_failed'' msg)
            | None \<Rightarrow>
                (let a3 = a2\<lparr>run_task := True, heartbeat_task := True\<rparr>;
                     a4 = set_state a3 Running
                 in (True, emit_event a4 AGENT_STARTED [(''start_time'', PTime)]))))"

text \<open>
  \<open>BaseAgent.stop\<close>. Both loops have ended when the hook \<open>_on_stop\<close> runs: the
  heartbeat task is cancelled, the run task is awaited and cancelled after the
  timeout. An exception can come from the hook.
\<close>

definition agent_stop :: "real \<Rightarrow> agent \<Rightarrow> bool \<times> agent" where
  "agent_stop timeout a =
     (if state a = Stopped then (True, a)
      else
        (let a1 = set_state a Stopping;
             a2 = a1\<lparr>shutdown_event := True, pause_event := True\<rparr>;
             a3 = a2\<lparr>heartbeat_task := False\<rparr>;
             a4 = a3\<lparr>run_task := False\<rparr>
         in case on_stop_raises a4 of
              Some msg \<Rightarrow> (False, set_state a4 Error)
            | None \<Rightarrow>
                (let a5 = set_state a4 Stopped
                 in (True, emit_event a5 AGENT_STOPPED
                             [(''uptime_seconds'', PTime),
                              (''total_runs'', PInt (total_runs (metrics a5)))]))))"












definition fails_until :: "nat \<Rightarrow> nat \<Rightarrow> work_result" where
  "fails_until n i = (if i < n then Fail ''boom'' else Ok True)"

definition draws_zero :: "nat \<Rightarrow> real" where
  "draws_zero i = 0"


section \<open>The orchestrator (app/services/agents/orchestrator.py)\<close>

datatype OrchestratorState =
  O_INITIALIZING | O_RUNNING | O_PAUSED | O_STOPPING | O_STOPPED | O_ERROR

text \<open>
  The warnings and errors the orchestrator writes to its log, with the agent name
  (and the restart count) they carry.
\<close>

datatype log_line =
    WarnAlreadyInitialized
  | ErrInitializeFailed
  | WarnAlreadyRunning
  | ErrAgentFailedToStart string
  | ErrSomeAgentsFailedToStart
  | WarnDidNotStopCleanly string
  | ErrDuringShutdown
  | WarnAutoRestartDisabled string
  | ErrMaxRestartAttempts string int
  | WarnAttemptingRestart string int
  | ErrFailedToRestart string

text \<open>
  The state of an \<open>AgentOrchestrator\<close>. \<open>agents\<close> is the dict of agents in
  insertion order, \<open>agent_restart_counts\<close> the dict of restart counts.
  \<open>published\<close> records the orchestrator's own calls of \<open>event_bus.publish\<close>
  (event type and data, source "orchestrator") and \<open>logged\<close> its warnings and
  errors, both in the order made.
\<close>

record orchestrator =
  auto_restart_agents :: bool
  max_restart_attempts :: int
  orch_state :: OrchestratorState
  agents :: "(string \<times> agent) list"
  agent_restart_counts :: "string \<rightharpoonup> int"
  health_check_task :: bool
  orch_shutdown_event :: bool
  registered_handlers :: "string list"
  published :: "(EventType \<times> payload) list"
  logged :: "log_line list"

definition new_orchestrator :: "bool \<Rightarrow> int \<Rightarrow> orchestrator" where
  "new_orchestrator auto_restart max_attempts =
     \<lparr>auto_restart_agents = auto_restart, max_restart_attempts = max_attempts,
      orch_state = O_STOPPED, agents = [], agent_restart_counts = Map.empty,
      health_check_task = False, orch_shutdown_event = False, registered_handlers = [],
      published = [], logged = []\<rparr>"

text \<open>
  What the surroundings of the orchestrator do: the agents \<open>_create_agents\<close>
  constructs, whether \<open>init_event_bus\<close> raises, whether \<open>shutdown_event_bus\<close>
  raises.
\<close>

record orch_env =
  created_agents :: "(string \<times> agent) list"
  init_raises :: bool
  bus_shutdown_raises :: bool

text \<open>\<open>AgentOrchestrator.initialize\<close>, with \<open>_register_event_handlers\<close> and \<open>_create_agents\<close>.\<close>

definition initialize :: "orch_env \<Rightarrow> orchestrator \<Rightarrow> bool \<times> orchestrator" where
  "initialize env orch =
     (if orch_state orch \<noteq> O_STOPPED
      then (False, orch\<lparr>logged := logged orch @ [WarnAlreadyInitialized]\<rparr>)
      else
        (let o1 = orch\<lparr>orch_state := O_INITIALIZING\<rparr>
         in if init_raises env
            then (False, o1\<lparr>orch_state := O_ERROR,
                            logged := logged o1 @ [ErrInitializeFailed]\<rparr>)
            else (True,
                  o1\<lparr>registered_handlers := registered_handlers o1 @
                         [''orchestrator_error_handler'', ''orchestrator_agent_monitor'',
                          ''orchestrator_workflow_tracker''],
                      agents := created_agents env,
                      agent_restart_counts :=
                        fold (\<lambda>n m. m(n \<mapsto> 0)) (map fst (created_agents env))
                          (agent_restart_counts o1)\<rparr>)))"

text \<open>
  \<open>AgentOrchestrator.stop\<close>. Every agent is stopped with its share of the timeout;
  a stop that returns false is logged and \<open>all_stopped\<close> stays true, since
  \<open>BaseAgent.stop\<close> catches its exceptions and returns a boolean.
\<close>

definition orch_stop :: "orch_env \<Rightarrow> real \<Rightarrow> orchestrator \<Rightarrow> bool \<times> orchestrator" where
  "orch_stop env timeout orch =
     (if orch_state orch = O_STOPPED then (True, orch)
      else
        (let o1 = orch\<lparr>orch_state := O_STOPPING, orch_shutdown_event := True,
                       health_check_task := False\<rparr>;
             results = map (\<lambda>(n, a). (n, agent_stop (timeout / real (length (agents o1))) a))
                         (agents o1);
             o2 = o1\<lparr>agents := map (\<lambda>(n, r). (n, snd r)) results,
                     logged := logged o1 @
                       map (\<lambda>(n, r). WarnDidNotStopCleanly n)
                         (filter (\<lambda>(n, r). \<not> fst r) results)\<rparr>;
             all_stopped = True;
             o3 = o2\<lparr>registered_handlers := []\<rparr>
         in if bus_shutdown_raises env
            then (False, o3\<lparr>orch_state := O_ERROR,
                            logged := logged o3 @ [ErrDuringShutdown]\<rparr>)
            else (all_stopped, o3\<lparr>orch_state := O_STOPPED\<rparr>)))"

text \<open>
  \<open>AgentOrchestrator.start\<close>. The agents are started concurrently; each
  \<open>BaseAgent.start\<close> works on its own agent, so the result is that of starting
  them one after the other.
\<close>

definition orch_start :: "orch_env \<Rightarrow> orchestrator \<Rightarrow> bool \<times> orchestrator" where
  "orch_start env orch =
     (if orch_state orch = O_RUNNING
      then (True, orch\<lparr>logged := logged orch @ [WarnAlreadyRunning]\<rparr>)
      else
        (let (ok, o1) = (if orch_state orch = O_STOPPED then initialize env orch
                         else (True, orch))
         in if \<not> ok then (False, o1)
            else
              (let o2 = o1\<lparr>orch_shutdown_event := False\<rparr>;
                   results = map (\<lambda>(n, a). (n, agent_start a)) (agents o2);
                   o3 = o2\<lparr>agents := map (\<lambda>(n, r). (n, snd r)) results,
                           logged := logged o2 @
                             map (\<lambda>(n, r). ErrAgentFailedToStart n)
                               (filter (\<lambda>(n, r). \<not> fst r) results)\<rparr>;
                   all_started = list_all (\<lambda>(n, r). fst r) results
               in if all_started
                  then (True, o3\<lparr>orch_state := O_RUNNING, health_check_task := True\<rparr>)
                  else (False,
                        snd (orch_stop env 60
                               (o3\<lparr>logged := logged o3 @ [ErrSomeAgentsFailedToStart]\<rparr>))))))"

text \<open>
  \<open>AgentOrchestrator._handle_agent_failure\<close>. The agent is an object the handler
  works on, so the model returns it beside the orchestrator. \<open>BaseAgent.stop\<close> and
  \<open>BaseAgent.start\<close> return a boolean and raise nothing, so the handler's
  \<open>except Exception\<close> is never entered (it would increment the count as well).
\<close>

definition handle_agent_failure ::
  "orchestrator \<Rightarrow> string \<Rightarrow> agent \<Rightarrow> orchestrator \<times> agent"
where
  "handle_agent_failure orch name a =
     (let restart_count = (case agent_restart_counts orch name of
                             Some c \<Rightarrow> c
                           | None \<Rightarrow> 0)
      in if \<not> auto_restart_agents orch
         then (orch\<lparr>logged := logged orch @ [WarnAutoRestartDisabled name]\<rparr>, a)
         else if max_restart_attempts orch \<le> restart_count
         then (orch\<lparr>logged := logged orch @ [ErrMaxRestartAttempts name
                                                   (max_restart_attempts orch)],
                     published := published orch @
                       [(ERROR, [(''agent_name'', PStr name),
                                 (''error'', PStr ''Max restart attempts exceeded''),
                                 (''restart_count'', PInt restart_count)])]\<rparr>, a)
         else
           (let o1 = orch\<lparr>logged := logged orch @
                                 [WarnAttemptingRestart name (restart_count + 1)]\<rparr>;
                a1 = snd (agent_stop 10 a);
                (success, a2) = agent_start a1;
                o2 = o1\<lparr>agent_restart_counts :=
                           (agent_restart_counts o1)(name \<mapsto> restart_count + 1)\<rparr>
            in if success then (o2, a2)
               else (o2\<lparr>logged := logged o2 @ [ErrFailedToRestart name]\<rparr>, a2)))"

text \<open>
  One pass of \<open>_health_check_loop\<close> after its sleep: the handler is called for
  every agent found in \<open>Error\<close>, and for every agent found \<open>Stopped\<close> while the
  orchestrator is running.
\<close>

definition check_agent :: "orchestrator \<Rightarrow> string \<Rightarrow> orchestrator" where
  "check_agent orch name =
     (case map_of (agents orch) name of
        None \<Rightarrow> orch
      | Some a \<Rightarrow>
          if state a = Error \<or> (state a = Stopped \<and> orch_state orch = O_RUNNING)
          then (let (o1, a1) = handle_agent_failure orch name a
                in o1\<lparr>agents := AList.update name a1 (agents o1)\<rparr>)
          else orch)"

definition health_check_pass :: "orchestrator \<Rightarrow> orchestrator" where
  "health_check_pass orch =
     (if orch_shutdown_event orch then orch
      else fold (\<lambda>n oc. check_agent oc n) (map fst (agents orch)) orch)"

text \<open>
  The handler called once for each state the failed agent is found in, one call after
  the other: the agent enters \<open>Error\<close> again and again.
\<close>

definition handle_failures :: "orchestrator \<Rightarrow> string \<Rightarrow> agent list \<Rightarrow> orchestrator" where
  "handle_failures orch name found =
     fold (\<lambda>a oc. fst (handle_agent_failure oc name a)) found orch"

fun is_restart_attempt :: "string \<Rightarrow> log_line \<Rightarrow> bool" where
  "is_restart_attempt name (WarnAttemptingRestart n c) = (n = name)"
| "is_restart_attempt name other = False"

definition restart_attempts :: "orchestrator \<Rightarrow> string \<Rightarrow> nat" where
  "restart_attempts orch name = length (filter (is_restart_attempt name) (logged orch))"

text \<open>
  The events of the history that match the filters of a query, in the words of the
  specification: a filter that is absent, or an empty string, matches every event.
\<close>

definition matching_events ::
  "EventBus \<Rightarrow> EventType option \<Rightarrow> string option \<Rightarrow> string option \<Rightarrow> Event list"
where
  "matching_events bus et src cid =
     filter (\<lambda>e. (case et of Some t \<Rightarrow> event_type e = t | None \<Rightarrow> True)
               \<and> (case src of Some s \<Rightarrow> s = [] \<or> source e = s | None \<Rightarrow> True)
               \<and> (case cid of Some c \<Rightarrow> c = [] \<or> correlation_id e = Some c | None \<Rightarrow> True))
       (event_history bus)"




text \<open>\<open>self._agent_restart_counts.get(agent_name, 0)\<close>.\<close>

definition restart_count :: "orchestrator \<Rightarrow> string \<Rightarrow> int" where
  "restart_count orch name =
     (case agent_restart_counts orch name of Some c \<Rightarrow> c | None \<Rightarrow> 0)"

text \<open>
  The event the handler publishes when the restart attempts are used up, and an agent
  whose start hook raises: it is in \<open>Error\<close> after \<open>start()\<close>.
\<close>

definition max_restart_event :: "string \<Rightarrow> int \<Rightarrow> EventType \<times> payload" where
  "max_restart_event name c =
     (ERROR, [(''agent_name'', PStr name),
              (''error'', PStr ''Max restart attempts exceeded''),
              (''restart_count'', PInt c)])"

definition failed_worker :: agent where
  "failed_worker =
     snd (agent_start (new_agent ''w'' default_retry_config (Some ''no connection'') None))"

text \<open>
  The agents \<open>AgentOrchestrator.start\<close> starts: the ones \<open>initialize\<close> creates
  when the orchestrator is \<open>STOPPED\<close>, the ones it holds otherwise. And the agent
  \<open>start\<close> leaves behind when it has to roll back: started, then stopped with its
  share of the timeout of 60 seconds.
\<close>

definition agents_to_start :: "orch_env \<Rightarrow> orchestrator \<Rightarrow> (string \<times> agent) list" where
  "agents_to_start env orch =
     (if orch_state orch = O_STOPPED then created_agents env else agents orch)"

definition rolled_back :: "nat \<Rightarrow> agent \<Rightarrow> agent" where
  "rolled_back count a = snd (agent_stop (60 / real count) (snd (agent_start a)))"

text \<open>Three agents, the second of which cannot start.\<close>

definition three_agents :: "(string \<times> agent) list" where
  "three_agents =
     [(''request_monitor'', new_agent ''request_monitor'' default_retry_config None None),
      (''document_retrieval'',
         new_agent ''document_retrieval'' default_retry_config (Some ''no connection'') None),
      (''classification'', new_agent ''classification'' default_retry_config None None)]"

definition three_agents_env :: orch_env where
  "three_agents_env =
     \<lparr>created_agents = three_agents, init_raises = False, bus_shutdown_raises = False\<rparr>"





section \<open>Properties of the retry procedure\<close>

lemma set_state_simps [simp]:
  "state (set_state a s) = s"
  "retry_config (set_state a s) = retry_config a"
  "metrics (set_state a s) = metrics a"
  "calls (set_state a s) = calls a"
  "draws (set_state a s) = draws a"
  "slept (set_state a s) = slept a"
  "run_task (set_state a s) = run_task a"
  "heartbeat_task (set_state a s) = heartbeat_task a"
  "shutdown_event (set_state a s) = shutdown_event a"
  "pause_event (set_state a s) = pause_event a"
  "on_start_raises (set_state a s) = on_start_raises a"
  "on_stop_raises (set_state a s) = on_stop_raises a"
  "agent_name (set_state a s) = agent_name a"
  "transitions (set_state a s) = transitions a @ [(state a, s)]"
  by (simp_all add: set_state_def emit_event_def Let_def)


text \<open>
  A unit of work that fails at every invocation, run over attempts that are all below
  \<open>max_retries\<close> and then the attempt \<open>max_retries\<close> itself: every attempt invokes
  the work, the last one enters \<open>Error\<close>, and the exception raised is the last one.
\<close>

lemma retry_loop_all_fail:
  "max_retries (retry_config a) = n \<Longrightarrow> \<forall>x\<in>set xs. x < n \<Longrightarrow>
   fst (retry_loop (\<lambda>i. Fail (msg i)) rnd (xs @ [n]) d l a)
     = Raise (Exception (msg (calls a + length xs)))
   \<and> calls (snd (retry_loop (\<lambda>i. Fail (msg i)) rnd (xs @ [n]) d l a))
     = calls a + length xs + 1
   \<and> state (snd (retry_loop (\<lambda>i. Fail (msg i)) rnd (xs @ [n]) d l a)) = Error
   \<and> retry_config (snd (retry_loop (\<lambda>i. Fail (msg i)) rnd (xs @ [n]) d l a))
     = retry_config a"
proof (induction xs arbitrary: d l a)
  case Nil
  then show ?case by (simp add: Let_def)
next
  case (Cons x xs)
  then show ?case by (simp add: Let_def)
qed

lemma range_snoc: "0 \<le> n \<Longrightarrow> [0..n] = [0..n - 1] @ [n]"
  by (simp add: upto_rec2)

lemma execute_all_fail:
  assumes "max_retries (retry_config a) = int n"
  shows "fst (execute_with_retry (\<lambda>i. Fail (msg i)) rnd a)
           = Raise (Exception (msg (calls a + n)))
       \<and> calls (snd (execute_with_retry (\<lambda>i. Fail (msg i)) rnd a)) = calls a + (n + 1)
       \<and> state (snd (execute_with_retry (\<lambda>i. Fail (msg i)) rnd a)) = Error"
proof -
  have l: "[0..int n] = [0..int n - 1] @ [int n]" by (rule range_snoc) simp
  have len: "length [0..int n - 1] = n" by simp
  show ?thesis
    unfolding execute_with_retry_def assms l
    using retry_loop_all_fail[of a "int n" "[0..int n - 1]" msg rnd
            "initial_delay (retry_config a)" None] assms
    by (simp add: len del: upto.simps)
qed

text \<open>
  C2. For a retry configuration with \<open>max_retries = n\<close> and a unit of work that fails
  at every attempt (with the message \<open>msg i\<close> at its \<open>i\<close>-th invocation), the retry
  procedure invokes the work exactly \<open>n + 1\<close> times, leaves the agent in \<open>Error\<close>
  and raises the exception of the last attempt.
\<close>

theorem execute_with_retry_exhausts:
  assumes "max_retries (retry_config a) = int n"
  shows "fst (execute_with_retry (\<lambda>i. Fail (msg i)) rnd a)
           = Raise (Exception (msg (calls a + n)))
       \<and> calls (snd (execute_with_retry (\<lambda>i. Fail (msg i)) rnd a)) = calls a + (n + 1)
       \<and> state (snd (execute_with_retry (\<lambda>i. Fail (msg i)) rnd a)) = Error"
  using execute_all_fail [OF assms] by simp

theorem execute_with_retry_exhausts_witness:
  "max_retries (retry_config (new_agent ''w'' default_retry_config None None)) = int 3
   \<and> fst (execute_with_retry (\<lambda>i. Fail ''boom'') (\<lambda>i. 0)
            (new_agent ''w'' default_retry_config None None))
       = Raise (Exception ''boom'')
   \<and> calls (snd (execute_with_retry (\<lambda>i. Fail ''boom'') (\<lambda>i. 0)
              (new_agent ''w'' default_retry_config None None))) = 4
   \<and> state (snd (execute_with_retry (\<lambda>i. Fail ''boom'') (\<lambda>i. 0)
              (new_agent ''w'' default_retry_config None None))) = Error"
proof -
  have h: "max_retries (retry_config (new_agent ''w'' default_retry_config None None)) = int 3"
    by (simp add: new_agent_def default_retry_config_def)
  show ?thesis
    using h execute_with_retry_exhausts [OF h, of "\<lambda>i. ''boom''" "\<lambda>i. 0"]
    by (simp add: new_agent_def)
qed

section \<open>Properties of the event bus\<close>

lemma publish_waits_when_full:
  "queue_full bus \<Longrightarrow> publish bus et d src cid md fid now = Suspended"
  by (simp add: publish_def queue_put_def)

lemma publish_sync_raises_when_full:
  "queue_full bus \<Longrightarrow>
   publish_sync bus et d src cid md fid now = Raised (RuntimeError ''Event queue is full'')"
  by (simp add: publish_sync_def queue_put_nowait_def)

lemma publish_returns_event:
  "\<not> queue_full bus \<Longrightarrow>
   publish bus et d src cid md fid now =
     Returned (make_event et d src cid md fid now,
               bus\<lparr>event_queue := event_queue bus @ [make_event et d src cid md fid now]\<rparr>)"
  by (simp add: publish_def queue_put_def Let_def)

text \<open>
  C1. On a bus of capacity 1 that holds one queued event, \<open>publish\<close> does not fail:
  the call is suspended in \<open>Queue.put\<close> until a slot is free. The synchronous
  \<open>publish_sync\<close> raises "Event queue is full" on the same bus.
\<close>

theorem publish_on_full_queue_waits:
  "publish
     ((new_event_bus 1)
        \<lparr>event_queue := [make_event REQUEST_CREATED [] ''monitor'' None None ''e0'' 0]\<rparr>)
     ERROR [] ''orchestrator'' None None ''e1'' 1 = Suspended
   \<and> publish_sync
     ((new_event_bus 1)
        \<lparr>event_queue := [make_event REQUEST_CREATED [] ''monitor'' None None ''e0'' 0]\<rparr>)
     ERROR [] ''orchestrator'' None None ''e1'' 1
       = Raised (RuntimeError ''Event queue is full'')"
  by (simp add: publish_def publish_sync_def queue_put_def queue_put_nowait_def queue_full_def
        new_event_bus_def)

lemma py_slice_last: "0 < l \<Longrightarrow> py_slice_from (- l) xs = drop (length xs - nat l) xs"
  by (auto simp add: py_slice_from_def Let_def max_def nat_diff_distrib
        intro!: arg_cong2[where f=drop])

text \<open>
  With a positive limit the query returns the last \<open>limit\<close> matching events of the
  history.
\<close>

lemma history_positive_limit:
  "0 < l \<Longrightarrow> get_event_history bus et src cid l =
      drop (length (matching_events bus et src cid) - nat l) (matching_events bus et src cid)"
  by (auto simp add: get_event_history_def matching_events_def py_slice_last Let_def
        split: option.splits intro!: arg_cong2[where f=drop] filter_cong)

lemma append_history_bounded:
  "0 < max_history_size bus \<Longrightarrow> int (length (event_history bus)) \<le> max_history_size bus \<Longrightarrow>
   int (length (append_history bus e)) \<le> max_history_size bus"
  by (auto simp add: append_history_def py_slice_last Let_def)

text \<open>
  C9. With \<open>limit = 0\<close> the query returns \<open>events[-0:]\<close>, the whole list: a history
  of one event gives one event, not at most zero.
\<close>

theorem history_limit_zero_returns_all:
  "get_event_history
     ((new_event_bus 10)
        \<lparr>event_history := [make_event REQUEST_CREATED [] ''monitor'' None None ''e0'' 0]\<rparr>)
     None None None 0 = [make_event REQUEST_CREATED [] ''monitor'' None None ''e0'' 0]"
  by (simp add: get_event_history_def py_slice_from_def new_event_bus_def)

section \<open>Properties of the run loop\<close>

lemma retry_loop_counters:
  "total_runs (metrics (snd (retry_loop work rnd xs d l a))) = total_runs (metrics a)
   \<and> successful_runs (metrics (snd (retry_loop work rnd xs d l a)))
       = successful_runs (metrics a)
   \<and> failed_runs (metrics (snd (retry_loop work rnd xs d l a))) = failed_runs (metrics a)"
proof (induction xs arbitrary: d l a)
  case Nil
  show ?case by (simp split: option.splits)
next
  case (Cons x xs)
  show ?case by (simp add: Let_def Cons.IH split: work_result.splits)
qed

lemma add_error_counters [simp]:
  "total_runs (metrics (add_error a t m)) = total_runs (metrics a)"
  "successful_runs (metrics (add_error a t m)) = successful_runs (metrics a)"
  "failed_runs (metrics (add_error a t m)) = failed_runs (metrics a)"
  by (simp_all add: add_error_def Let_def)

text \<open>
  C10. A completed pass of the run loop adds one to \<open>total_runs\<close> and one to exactly
  one of \<open>successful_runs\<close> and \<open>failed_runs\<close>: to \<open>successful_runs\<close> when the
  retry procedure returns a true value, to \<open>failed_runs\<close> when it returns a false
  value or raises. So \<open>successful_runs + failed_runs = total_runs\<close> is preserved.
\<close>

theorem run_iteration_counts:
  assumes "fst (run_iteration work rnd a) = Completed"
  shows "total_runs (metrics (snd (run_iteration work rnd a))) = total_runs (metrics a) + 1
     \<and> (if fst (execute_with_retry work rnd
                   (a\<lparr>metrics := (metrics a)\<lparr>total_runs := total_runs (metrics a) + 1\<rparr>\<rparr>))
             = Return True
         then successful_runs (metrics (snd (run_iteration work rnd a)))
                = successful_runs (metrics a) + 1
            \<and> failed_runs (metrics (snd (run_iteration work rnd a))) = failed_runs (metrics a)
         else successful_runs (metrics (snd (run_iteration work rnd a)))
                = successful_runs (metrics a)
            \<and> failed_runs (metrics (snd (run_iteration work rnd a)))
                = failed_runs (metrics a) + 1)
     \<and> (successful_runs (metrics a) + failed_runs (metrics a) = total_runs (metrics a)
          \<longrightarrow> successful_runs (metrics (snd (run_iteration work rnd a)))
              + failed_runs (metrics (snd (run_iteration work rnd a)))
              = total_runs (metrics (snd (run_iteration work rnd a))))"
proof -
  let ?a1 = "a\<lparr>metrics := (metrics a)\<lparr>total_runs := total_runs (metrics a) + 1\<rparr>\<rparr>"
  obtain r a2 where e: "execute_with_retry work rnd ?a1 = (r, a2)"
    by (cases "execute_with_retry work rnd ?a1")
  have c: "total_runs (metrics a2) = total_runs (metrics a) + 1
    \<and> successful_runs (metrics a2) = successful_runs (metrics a)
    \<and> failed_runs (metrics a2) = failed_runs (metrics a)"
    using retry_loop_counters[of work rnd "[0..max_retries (retry_config ?a1)]"
            "initial_delay (retry_config ?a1)" None ?a1] e
    by (simp add: execute_with_retry_def del: upto.simps)
  show ?thesis using assms e c
    by (cases r) (auto simp add: run_iteration_def Let_def split: if_splits)
qed

theorem run_iteration_counts_witness:
  "fst (run_iteration (fails_until 1) draws_zero
          (snd (agent_start (new_agent ''w'' default_retry_config None None)))) = Completed
   \<and> total_runs (metrics (snd (run_iteration (fails_until 1) draws_zero
          (snd (agent_start (new_agent ''w'' default_retry_config None None)))))) = 1
   \<and> successful_runs (metrics (snd (run_iteration (fails_until 1) draws_zero
          (snd (agent_start (new_agent ''w'' default_retry_config None None)))))) = 1
   \<and> failed_runs (metrics (snd (run_iteration (fails_until 1) draws_zero
          (snd (agent_start (new_agent ''w'' default_retry_config None None)))))) = 0"
proof -
  let ?a = "snd (agent_start (new_agent ''w'' default_retry_config None None))"
  have x: "fst (execute_with_retry (fails_until 1) draws_zero
             (?a\<lparr>metrics := (metrics ?a)\<lparr>total_runs := total_runs (metrics ?a) + 1\<rparr>\<rparr>))
           = Return True"
    by code_simp
  have h: "fst (run_iteration (fails_until 1) draws_zero ?a) = Completed"
    by code_simp
  have m: "total_runs (metrics ?a) = 0 \<and> successful_runs (metrics ?a) = 0
           \<and> failed_runs (metrics ?a) = 0"
    by code_simp
  show ?thesis
    using h x m run_iteration_counts [OF h] by simp
qed

lemma retry_loop_retry_config [simp]:
  "retry_config (snd (retry_loop work rnd xs d l a)) = retry_config a"
proof (induction xs arbitrary: d l a)
  case Nil
  show ?case by (simp split: option.splits)
next
  case (Cons x xs)
  show ?case by (simp add: Let_def Cons.IH split: work_result.splits)
qed











section \<open>The retry procedure with jitter\<close>










section \<open>Properties of the restart procedure\<close>

lemma handle_disabled:
  "\<not> auto_restart_agents orch \<Longrightarrow>
   handle_agent_failure orch name a =
     (orch\<lparr>logged := logged orch @ [WarnAutoRestartDisabled name]\<rparr>, a)"
  by (simp add: handle_agent_failure_def)

lemma handle_exhausted:
  "auto_restart_agents orch \<Longrightarrow> max_restart_attempts orch \<le> restart_count orch name \<Longrightarrow>
   handle_agent_failure orch name a =
     (orch\<lparr>logged := logged orch @ [ErrMaxRestartAttempts name (max_restart_attempts orch)],
           published := published orch @
             [max_restart_event name (restart_count orch name)]\<rparr>, a)"
  by (simp add: handle_agent_failure_def restart_count_def max_restart_event_def Let_def)

lemma handle_restarts:
  "auto_restart_agents orch \<Longrightarrow> restart_count orch name < max_restart_attempts orch \<Longrightarrow>
   snd (handle_agent_failure orch name a) = snd (agent_start (snd (agent_stop 10 a)))
   \<and> agent_restart_counts (fst (handle_agent_failure orch name a))
       = (agent_restart_counts orch)(name \<mapsto> restart_count orch name + 1)
   \<and> restart_attempts (fst (handle_agent_failure orch name a)) name
       = restart_attempts orch name + 1
   \<and> published (fst (handle_agent_failure orch name a)) = published orch
   \<and> auto_restart_agents (fst (handle_agent_failure orch name a))
   \<and> max_restart_attempts (fst (handle_agent_failure orch name a)) = max_restart_attempts orch"
  by (simp add: handle_agent_failure_def restart_count_def restart_attempts_def Let_def
        split: prod.splits)

lemma handle_failures_exhausted:
  "auto_restart_agents orch \<Longrightarrow> max_restart_attempts orch \<le> restart_count orch name \<Longrightarrow>
   restart_attempts (handle_failures orch name found) name = restart_attempts orch name
   \<and> agent_restart_counts (handle_failures orch name found) = agent_restart_counts orch
   \<and> length (published (handle_failures orch name found))
       = length (published orch) + length found"
proof (induction found arbitrary: orch)
  case Nil
  show ?case by (simp add: handle_failures_def)
next
  case (Cons a found)
  let ?o1 = "fst (handle_agent_failure orch name a)"
  have e: "?o1 = orch\<lparr>logged := logged orch @ [ErrMaxRestartAttempts name (max_restart_attempts orch)],
           published := published orch @ [max_restart_event name (restart_count orch name)]\<rparr>"
    using handle_exhausted[OF Cons.prems] by simp
  have p: "auto_restart_agents ?o1" "max_restart_attempts ?o1 \<le> restart_count ?o1 name"
    using Cons.prems by (simp_all add: e restart_count_def)
  have u: "handle_failures orch name (a # found) = handle_failures ?o1 name found"
    by (simp add: handle_failures_def)
  show ?case
    using Cons.IH[OF p] by (simp only: u) (simp add: e restart_attempts_def)
qed

text \<open>
  C7. With auto-restart enabled: while the restart count of the agent is below
  \<open>max_restart_attempts\<close>, a pass of the handler stops and starts the agent and
  adds one to the count, whatever \<open>stop\<close> and \<open>start\<close> return; once the count has
  reached \<open>max_restart_attempts\<close>, a pass leaves the agent and the count as they are
  and publishes one \<open>ERROR\<close> event. With \<open>max_restart_attempts = 1\<close> and an agent
  found failed again and again, exactly one restart is attempted, and every later
  pass publishes the event.
\<close>

theorem restart_attempts_are_bounded:
  assumes "auto_restart_agents orch"
  shows "(restart_count orch name < max_restart_attempts orch \<longrightarrow>
            snd (handle_agent_failure orch name a) = snd (agent_start (snd (agent_stop 10 a)))
          \<and> restart_count (fst (handle_agent_failure orch name a)) name
              = restart_count orch name + 1
          \<and> restart_attempts (fst (handle_agent_failure orch name a)) name
              = restart_attempts orch name + 1)
       \<and> (max_restart_attempts orch \<le> restart_count orch name \<longrightarrow>
            snd (handle_agent_failure orch name a) = a
          \<and> restart_count (fst (handle_agent_failure orch name a)) name
              = restart_count orch name
          \<and> restart_attempts (fst (handle_agent_failure orch name a)) name
              = restart_attempts orch name
          \<and> published (fst (handle_agent_failure orch name a))
              = published orch @ [max_restart_event name (restart_count orch name)])
       \<and> (max_restart_attempts orch = 1 \<and> restart_count orch name = 0 \<longrightarrow>
            restart_attempts (handle_failures orch name (a # found)) name
              = restart_attempts orch name + 1
          \<and> restart_count (handle_failures orch name (a # found)) name = 1
          \<and> length (published (handle_failures orch name (a # found)))
              = length (published orch) + length found)"
proof -
  have below: "restart_count orch name < max_restart_attempts orch \<Longrightarrow>
            snd (handle_agent_failure orch name a) = snd (agent_start (snd (agent_stop 10 a)))
          \<and> restart_count (fst (handle_agent_failure orch name a)) name
              = restart_count orch name + 1
          \<and> restart_attempts (fst (handle_agent_failure orch name a)) name
              = restart_attempts orch name + 1"
    using handle_restarts[OF assms, of name a] by (simp add: restart_count_def)
  have reached: "max_restart_attempts orch \<le> restart_count orch name \<Longrightarrow>
            snd (handle_agent_failure orch name a) = a
          \<and> restart_count (fst (handle_agent_failure orch name a)) name
              = restart_count orch name
          \<and> restart_attempts (fst (handle_agent_failure orch name a)) name
              = restart_attempts orch name
          \<and> published (fst (handle_agent_failure orch name a))
              = published orch @ [max_restart_event name (restart_count orch name)]"
    using handle_exhausted[OF assms, of name a]
    by (simp add: restart_count_def restart_attempts_def)
  have storm: "max_restart_attempts orch = 1 \<Longrightarrow> restart_count orch name = 0 \<Longrightarrow>
            restart_attempts (handle_failures orch name (a # found)) name
              = restart_attempts orch name + 1
          \<and> restart_count (handle_failures orch name (a # found)) name = 1
          \<and> length (published (handle_failures orch name (a # found)))
              = length (published orch) + length found"
  proof -
    assume m: "max_restart_attempts orch = 1" and c: "restart_count orch name = 0"
    let ?o1 = "fst (handle_agent_failure orch name a)"
    have lt: "restart_count orch name < max_restart_attempts orch" using m c by simp
    note h = handle_restarts[OF assms lt, of a]
    have c1: "restart_count ?o1 name = 1" using h c by (simp add: restart_count_def)
    have p: "auto_restart_agents ?o1" "max_restart_attempts ?o1 \<le> restart_count ?o1 name"
      using h m c1 by simp_all
    have u: "handle_failures orch name (a # found) = handle_failures ?o1 name found"
      by (simp add: handle_failures_def)
    note r = handle_failures_exhausted[OF p, of found]
    have c2: "restart_count (handle_failures ?o1 name found) name = restart_count ?o1 name"
      using r by (simp add: restart_count_def)
    show ?thesis using r h c1 c2 by (simp add: u)
  qed
  show ?thesis using below reached storm by blast
qed

lemma failed_worker_state:
  "state failed_worker = Error \<and> \<not> fst (agent_start (snd (agent_stop 10 failed_worker)))"
  by (simp add: failed_worker_def agent_start_def agent_stop_def new_agent_def
        add_error_def emit_event_def set_state_def Let_def)

theorem restart_attempts_are_bounded_witness:
  "auto_restart_agents (new_orchestrator True 1)
   \<and> \<not> fst (agent_start (snd (agent_stop 10 failed_worker)))
   \<and> restart_count (fst (handle_agent_failure (new_orchestrator True 1) ''w'' failed_worker)) ''w''
       = 1
   \<and> restart_attempts
        (handle_failures (new_orchestrator True 1) ''w''
           [failed_worker, failed_worker, failed_worker]) ''w'' = 1
   \<and> restart_count
        (handle_failures (new_orchestrator True 1) ''w''
           [failed_worker, failed_worker, failed_worker]) ''w'' = 1
   \<and> length (published
        (handle_failures (new_orchestrator True 1) ''w''
           [failed_worker, failed_worker, failed_worker])) = 2"
proof -
  let ?o = "new_orchestrator True 1"
  have h: "auto_restart_agents ?o" by (simp add: new_orchestrator_def)
  have c: "max_restart_attempts ?o = 1 \<and> restart_count ?o ''w'' = 0
           \<and> restart_attempts ?o ''w'' = 0 \<and> published ?o = []"
    by (simp add: new_orchestrator_def restart_count_def restart_attempts_def)
  note t = restart_attempts_are_bounded [OF h, of "''w''" failed_worker
             "[failed_worker, failed_worker]"]
  have a: "restart_count (fst (handle_agent_failure ?o ''w'' failed_worker)) ''w''
             = restart_count ?o ''w'' + 1"
    using t c by simp
  have b: "restart_attempts (handle_failures ?o ''w'' (failed_worker # [failed_worker, failed_worker])) ''w''
              = restart_attempts ?o ''w'' + 1
          \<and> restart_count (handle_failures ?o ''w'' (failed_worker # [failed_worker, failed_worker])) ''w'' = 1
          \<and> length (published (handle_failures ?o ''w'' (failed_worker # [failed_worker, failed_worker])))
              = length (published ?o) + length [failed_worker, failed_worker]"
    using t c by blast
  show ?thesis using h a b c failed_worker_state by simp
qed

text \<open>
  C8 as the code has it. With auto-restart disabled, a pass of the handler leaves the
  agent, the restart counts and the published events as they are and only logs the
  warning "failed but auto-restart is disabled".
\<close>

theorem auto_restart_disabled_only_logs:
  assumes "\<not> auto_restart_agents orch"
  shows "handle_agent_failure orch name a =
           (orch\<lparr>logged := logged orch @ [WarnAutoRestartDisabled name]\<rparr>, a)"
  using handle_disabled [OF assms] by simp

theorem auto_restart_disabled_only_logs_witness:
  "\<not> auto_restart_agents (new_orchestrator False 3)
   \<and> handle_agent_failure (new_orchestrator False 3) ''w'' failed_worker =
       ((new_orchestrator False 3)\<lparr>logged := [WarnAutoRestartDisabled ''w'']\<rparr>, failed_worker)"
proof -
  have h: "\<not> auto_restart_agents (new_orchestrator False 3)"
    by (simp add: new_orchestrator_def)
  have l: "logged (new_orchestrator False 3) = []" by (simp add: new_orchestrator_def)
  show ?thesis
    using h l auto_restart_disabled_only_logs [OF h, of "''w''" failed_worker] by simp
qed

text \<open>
  The claim C8 fails: for an agent in \<open>Error\<close> and an orchestrator with auto-restart
  disabled, the handler publishes no event.
\<close>

theorem auto_restart_disabled_counterexample:
  "state failed_worker = Error
   \<and> published (fst (handle_agent_failure (new_orchestrator False 3) ''w'' failed_worker)) = []"
  using failed_worker_state
  by (simp add: handle_agent_failure_def new_orchestrator_def)

section \<open>Properties of the orchestrator's start\<close>

lemma agent_start_state:
  "state (snd (agent_start a)) \<noteq> Stopped
   \<and> on_stop_raises (snd (agent_start a)) = on_stop_raises a"
  by (auto simp add: agent_start_def add_error_def emit_event_def Let_def split: option.splits)

lemma agent_stop_state:
  "state a \<noteq> Stopped \<Longrightarrow>
   (state (snd (agent_stop t a)) = Stopped \<or> state (snd (agent_stop t a)) = Error)
   \<and> \<not> run_task (snd (agent_stop t a)) \<and> \<not> heartbeat_task (snd (agent_stop t a))
   \<and> (on_stop_raises a = None \<longrightarrow> state (snd (agent_stop t a)) = Stopped)"
  by (auto simp add: agent_stop_def emit_event_def Let_def split: option.splits)

lemma rolled_back_state:
  "(state (rolled_back c a) = Stopped \<or> state (rolled_back c a) = Error)
   \<and> \<not> run_task (rolled_back c a) \<and> \<not> heartbeat_task (rolled_back c a)
   \<and> (on_stop_raises a = None \<longrightarrow> state (rolled_back c a) = Stopped)"
  unfolding rolled_back_def
  using agent_stop_state[of "snd (agent_start a)" "60 / real c"] agent_start_state[of a]
  by simp

lemma all_started_iff:
  "list_all (\<lambda>(n, r). fst r) (map (\<lambda>(n, a). (n, agent_start a)) ags)
     = (\<forall>(n, a)\<in>set ags. fst (agent_start a))"
  by (induction ags) auto

lemma orch_start_rolls_back:
  assumes "orch_state orch \<noteq> O_RUNNING"
      and "orch_state orch = O_STOPPED \<longrightarrow> \<not> init_raises env"
      and "\<exists>(n, a)\<in>set (agents_to_start env orch). \<not> fst (agent_start a)"
  shows "\<not> fst (orch_start env orch)
       \<and> agents (snd (orch_start env orch))
           = map (\<lambda>(n, a). (n, rolled_back (length (agents_to_start env orch)) a))
               (agents_to_start env orch)"
proof (cases "orch_state orch = O_STOPPED")
  case True
  have na: "\<not> (\<forall>(n, a)\<in>set (created_agents env). fst (agent_start a))"
    using assms(3) True by (auto simp add: agents_to_start_def)
  show ?thesis using True assms(2) na
    by (simp add: orch_start_def initialize_def orch_stop_def Let_def all_started_iff
          agents_to_start_def rolled_back_def case_prod_beta o_def)
next
  case False
  have na: "\<not> (\<forall>(n, a)\<in>set (agents orch). fst (agent_start a))"
    using assms(3) False by (auto simp add: agents_to_start_def)
  show ?thesis using False assms(1) na
    by (simp add: orch_start_def orch_stop_def Let_def all_started_iff
          agents_to_start_def rolled_back_def case_prod_beta o_def)
qed

text \<open>
  C6. When \<open>start()\<close> of the orchestrator issues the starts (it is not already
  running, and the initialisation it may need succeeds) and one of the agents fails to
  start, then \<open>start()\<close> returns false and every agent has been started and then
  stopped: each one ends in \<open>Stopped\<close>, or in \<open>Error\<close> when its stop hook raised,
  with no run loop and no heartbeat loop alive, so no agent is left running.
\<close>

theorem start_failure_rolls_back:
  assumes "orch_state orch \<noteq> O_RUNNING"
      and "orch_state orch = O_STOPPED \<longrightarrow> \<not> init_raises env"
      and "\<exists>(n, a)\<in>set (agents_to_start env orch). \<not> fst (agent_start a)"
  shows "\<not> fst (orch_start env orch)
       \<and> agents (snd (orch_start env orch))
           = map (\<lambda>(n, a). (n, rolled_back (length (agents_to_start env orch)) a))
               (agents_to_start env orch)
       \<and> (\<forall>(n, b)\<in>set (agents (snd (orch_start env orch))).
             (state b = Stopped \<or> state b = Error) \<and> state b \<noteq> Running
             \<and> \<not> run_task b \<and> \<not> heartbeat_task b)
       \<and> (\<forall>(n, a)\<in>set (agents_to_start env orch).
             on_stop_raises a = None \<longrightarrow>
               state (rolled_back (length (agents_to_start env orch)) a) = Stopped)"
proof -
  note r = orch_start_rolls_back[OF assms]
  have s: "\<forall>(n, b)\<in>set (agents (snd (orch_start env orch))).
             (state b = Stopped \<or> state b = Error) \<and> state b \<noteq> Running
             \<and> \<not> run_task b \<and> \<not> heartbeat_task b"
  proof -
    have "\<And>c a. (state (rolled_back c a) = Stopped \<or> state (rolled_back c a) = Error)
              \<and> state (rolled_back c a) \<noteq> Running
              \<and> \<not> run_task (rolled_back c a) \<and> \<not> heartbeat_task (rolled_back c a)"
    proof -
      fix c a
      show "(state (rolled_back c a) = Stopped \<or> state (rolled_back c a) = Error)
              \<and> state (rolled_back c a) \<noteq> Running
              \<and> \<not> run_task (rolled_back c a) \<and> \<not> heartbeat_task (rolled_back c a)"
        using rolled_back_state[of c a] by auto
    qed
    then show ?thesis using r by auto
  qed
  have t: "\<forall>(n, a)\<in>set (agents_to_start env orch).
             on_stop_raises a = None \<longrightarrow>
               state (rolled_back (length (agents_to_start env orch)) a) = Stopped"
    using rolled_back_state by auto
  show ?thesis using r s t by blast
qed

theorem start_failure_rolls_back_witness:
  "orch_state (new_orchestrator True 3) = O_STOPPED
   \<and> \<not> init_raises three_agents_env
   \<and> \<not> fst (agent_start
             (new_agent ''document_retrieval'' default_retry_config (Some ''no connection'')
                None))
   \<and> \<not> fst (orch_start three_agents_env (new_orchestrator True 3))
   \<and> map (\<lambda>(n, b). (n, state b))
        (agents (snd (orch_start three_agents_env (new_orchestrator True 3))))
       = [(''request_monitor'', Stopped), (''document_retrieval'', Stopped),
          (''classification'', Stopped)]"
proof -
  let ?o = "new_orchestrator True 3"
  have h1: "orch_state ?o \<noteq> O_RUNNING" and st: "orch_state ?o = O_STOPPED"
    by (simp_all add: new_orchestrator_def)
  have ni: "\<not> init_raises three_agents_env" by (simp add: three_agents_env_def)
  have h2: "orch_state ?o = O_STOPPED \<longrightarrow> \<not> init_raises three_agents_env"
    using ni by simp
  have ags: "agents_to_start three_agents_env ?o = three_agents"
    by (simp add: agents_to_start_def new_orchestrator_def three_agents_env_def)
  have f: "\<not> fst (agent_start
             (new_agent ''document_retrieval'' default_retry_config (Some ''no connection'')
                None))"
    by (simp add: agent_start_def new_agent_def Let_def)
  have h3: "\<exists>(n, a)\<in>set (agents_to_start three_agents_env ?o). \<not> fst (agent_start a)"
    unfolding ags using f by (simp add: three_agents_def)
  note t = start_failure_rolls_back [OF h1 h2 h3]
  have r: "\<not> fst (orch_start three_agents_env ?o)" using t by blast
  have a: "agents (snd (orch_start three_agents_env ?o))
           = map (\<lambda>(n, a). (n, rolled_back (length three_agents) a)) three_agents"
    using t ags by simp
  have s: "\<forall>(n, a)\<in>set three_agents.
             on_stop_raises a = None \<longrightarrow> state (rolled_back (length three_agents) a) = Stopped"
    using t ags by simp
  have m: "map (\<lambda>(n, b). (n, state b))
             (map (\<lambda>(n, a). (n, rolled_back (length three_agents) a)) three_agents)
           = [(''request_monitor'', Stopped), (''document_retrieval'', Stopped),
              (''classification'', Stopped)]"
    using s by (simp add: three_agents_def new_agent_def)
  show ?thesis using st ni f r a m by simp
qed

section \<open>Properties of the state machine\<close>

lemma add_error_fields [simp]:
  "state (add_error a t m) = state a"
  "retry_config (add_error a t m) = retry_config a"
  "calls (add_error a t m) = calls a"
  "run_task (add_error a t m) = run_task a"
  "shutdown_event (add_error a t m) = shutdown_event a"
  "pause_event (add_error a t m) = pause_event a"
  "transitions (add_error a t m) = transitions a"
  "emitted (add_error a t m) = emitted a"
  by (simp_all add: add_error_def Let_def)



















end
